theory Spec2Isabelle
  imports Complex_Main
begin

section \<open>Geometric utilities of \<open>kol/geometry.py\<close>\<close>

text \<open>
  The module works on numpy arrays of double-precision numbers. Numbers are modelled as
  \<^typ>\<open>real\<close>: finite values with exact arithmetic, so rounding and overflow are not
  part of the model. Where the code divides by a quantity that may be zero without testing
  it (\<open>get_center_of_mass\<close>, and \<open>scale_mesh\<close> which consumes its result), the
  special values that numpy produces there are modelled by the type \<open>npfloat\<close> below.
  Every \<open>raise\<close> of the source, and every exception of an indexing or library call that a
  property depends on, is a value \<open>Inl e\<close> of a sum type.
\<close>

datatype error = ValueError | IndexError | LinAlgError

subsection \<open>Three-vectors and 3x3 matrices of a \<open>Dynamics\<close> record\<close>

type_synonym vec3 = "real \<times> real \<times> real"
type_synonym mat3 = "vec3 \<times> vec3 \<times> vec3"

definition zeros3 :: vec3 where
  "zeros3 = (0, 0, 0)"

definition zeros33 :: mat3 where
  "zeros33 = (zeros3, zeros3, zeros3)"


fun vadd3 :: "vec3 \<Rightarrow> vec3 \<Rightarrow> vec3" where
  "vadd3 (a, b, c) (x, y, z) = (a + x, b + y, c + z)"


fun vscale3 :: "vec3 \<Rightarrow> real \<Rightarrow> vec3" where
  "vscale3 (a, b, c) k = (a * k, b * k, c * k)"

fun vdiv3 :: "vec3 \<Rightarrow> real \<Rightarrow> vec3" where
  "vdiv3 (a, b, c) k = (a / k, b / k, c / k)"

fun dot3 :: "vec3 \<Rightarrow> vec3 \<Rightarrow> real" where
  "dot3 (a, b, c) (x, y, z) = a * x + b * y + c * z"


fun madd3 :: "mat3 \<Rightarrow> mat3 \<Rightarrow> mat3" where
  "madd3 (r0, r1, r2) (s0, s1, s2) = (vadd3 r0 s0, vadd3 r1 s1, vadd3 r2 s2)"



text \<open>Sums of vectors and of matrices, in the order of the list.\<close>

primrec vsum3 :: "vec3 list \<Rightarrow> vec3" where
  "vsum3 [] = zeros3"
| "vsum3 (v # vs) = vadd3 v (vsum3 vs)"



subsection \<open>Values of a division that numpy does not guard\<close>

text \<open>
  numpy does not raise when an array is divided by zero: it warns and stores \<open>nan\<close> or
  \<open>inf\<close>. A value that results from such a division is therefore a finite number or
  one of the three special values. The operations follow IEEE 754 without rounding. The
  divisor of \<open>get_center_of_mass\<close> is a sum that starts at \<open>0.0\<close>, which is never the
  negative zero, so the sign of \<open>x / 0\<close> is the sign of \<open>x\<close>.
\<close>

datatype npfloat = Fin real | PInf | NInf | NaN


definition np_div :: "real \<Rightarrow> real \<Rightarrow> npfloat" where
  "np_div a b =
     (if b \<noteq> 0 then Fin (a / b)
      else if a = 0 then NaN
      else if 0 < a then PInf
      else NInf)"

fun np_neg :: "npfloat \<Rightarrow> npfloat" where
  "np_neg (Fin a) = Fin (- a)"
| "np_neg PInf = NInf"
| "np_neg NInf = PInf"
| "np_neg NaN = NaN"

fun np_add :: "npfloat \<Rightarrow> npfloat \<Rightarrow> npfloat" where
  "np_add (Fin a) (Fin b) = Fin (a + b)"
| "np_add NaN y = NaN"
| "np_add x NaN = NaN"
| "np_add PInf NInf = NaN"
| "np_add NInf PInf = NaN"
| "np_add PInf y = PInf"
| "np_add x PInf = PInf"
| "np_add NInf y = NInf"
| "np_add x NInf = NInf"

definition np_sub :: "npfloat \<Rightarrow> npfloat \<Rightarrow> npfloat" where
  "np_sub x y = np_add x (np_neg y)"

text \<open>Multiplication by a finite number, as in \<open>points *= scale\<close>.\<close>

fun np_scale :: "npfloat \<Rightarrow> real \<Rightarrow> npfloat" where
  "np_scale (Fin a) k = Fin (a * k)"
| "np_scale NaN k = NaN"
| "np_scale PInf k = (if k = 0 then NaN else if 0 < k then PInf else NInf)"
| "np_scale NInf k = (if k = 0 then NaN else if 0 < k then NInf else PInf)"

type_synonym npvec3 = "npfloat \<times> npfloat \<times> npfloat"

fun np_vadd3 :: "npvec3 \<Rightarrow> npvec3 \<Rightarrow> npvec3" where
  "np_vadd3 (a, b, c) (x, y, z) = (np_add a x, np_add b y, np_add c z)"

fun np_vsub3 :: "npvec3 \<Rightarrow> npvec3 \<Rightarrow> npvec3" where
  "np_vsub3 (a, b, c) (x, y, z) = (np_sub a x, np_sub b y, np_sub c z)"

fun np_vscale3 :: "npvec3 \<Rightarrow> real \<Rightarrow> npvec3" where
  "np_vscale3 (a, b, c) k = (np_scale a k, np_scale b k, np_scale c k)"

fun fin3 :: "vec3 \<Rightarrow> npvec3" where
  "fin3 (a, b, c) = (Fin a, Fin b, Fin c)"

subsection \<open>Meshes\<close>

text \<open>
  A \<open>Mesh\<close> (class \<open>kol.mesh.Mesh\<close>) holds an \<open>(n, 3)\<close> array of points and an
  \<open>(m, 3)\<close> array of integer indices. The coordinates of an input mesh are finite;
  those of a mesh returned by \<open>scale_mesh\<close> may be special values.
\<close>

record 'a Mesh =
  points :: "('a \<times> 'a \<times> 'a) list"
  faces :: "(int \<times> int \<times> int) list"

text \<open>
  \<open>mesh.points[v]\<close>: numpy counts a negative index from the end and raises IndexError
  outside \<open>-n \<le> v < n\<close>.
\<close>

definition np_index :: "'a list \<Rightarrow> int \<Rightarrow> error + 'a" where
  "np_index xs v =
     (if 0 \<le> v \<and> v < int (length xs) then Inr (xs ! nat v)
      else if - int (length xs) \<le> v \<and> v < 0 then Inr (xs ! nat (int (length xs) + v))
      else Inl IndexError)"

fun cross3 :: "vec3 \<Rightarrow> vec3 \<Rightarrow> vec3" where
  "cross3 (a, b, c) (x, y, z) = (b * z - c * y, c * x - a * z, a * y - b * x)"

subsection \<open>\<open>get_center_of_mass\<close>\<close>

text \<open>
  The loop over \<open>mesh.faces\<close>, with the accumulators \<open>total_volume\<close> and
  \<open>center_of_mass\<close>; an index out of range ends it with the IndexError.
\<close>

fun center_loop :: "vec3 list \<Rightarrow> real \<times> vec3 \<Rightarrow> (int \<times> int \<times> int) list \<Rightarrow> error + real \<times> vec3" where
  "center_loop pts (total_volume, center_of_mass) [] = Inr (total_volume, center_of_mass)"
| "center_loop pts (total_volume, center_of_mass) ((v0, v1, v2) # triangles) =
     (case np_index pts v0 of Inl e \<Rightarrow> Inl e | Inr p0 \<Rightarrow>
      (case np_index pts v1 of Inl e \<Rightarrow> Inl e | Inr p1 \<Rightarrow>
       (case np_index pts v2 of Inl e \<Rightarrow> Inl e | Inr p2 \<Rightarrow>
          let volume = dot3 p0 (cross3 p1 p2) / 6;
              centroid = vdiv3 (vadd3 (vadd3 p0 p1) p2) 4
          in center_loop pts
               (total_volume + volume, vadd3 center_of_mass (vscale3 centroid volume))
               triangles)))"

text \<open>\<open>center_of_mass /= total_volume\<close> is the unguarded division.\<close>

definition get_center_of_mass :: "real Mesh \<Rightarrow> error + npvec3" where
  "get_center_of_mass mesh =
     (case center_loop (points mesh) (0, zeros3) (faces mesh) of
        Inl e \<Rightarrow> Inl e
      | Inr (total_volume, (cx, cy, cz)) \<Rightarrow>
          Inr (np_div cx total_volume, np_div cy total_volume, np_div cz total_volume))"

text \<open>
  The data model's invariant of a mesh (every face index \<open>i\<close> has \<open>0 \<le> i < len(points)\<close>)
  and the sum of the signed volumes of the tetrahedra from the origin to each face.
\<close>

definition valid_index :: "'a list \<Rightarrow> int \<Rightarrow> bool" where
  "valid_index pts v = (0 \<le> v \<and> v < int (length pts))"

definition valid_mesh :: "'a Mesh \<Rightarrow> bool" where
  "valid_mesh mesh =
     list_all (\<lambda>(v0, v1, v2). valid_index (points mesh) v0 \<and> valid_index (points mesh) v1
                 \<and> valid_index (points mesh) v2) (faces mesh)"

definition signed_volume :: "vec3 list \<Rightarrow> int \<times> int \<times> int \<Rightarrow> real" where
  "signed_volume pts f =
     (case f of (v0, v1, v2) \<Rightarrow> dot3 (pts ! nat v0) (cross3 (pts ! nat v1) (pts ! nat v2)) / 6)"

definition signed_volumes_sum :: "real Mesh \<Rightarrow> real" where
  "signed_volumes_sum mesh = sum_list (map (signed_volume (points mesh)) (faces mesh))"

definition face_centroid :: "vec3 list \<Rightarrow> int \<times> int \<times> int \<Rightarrow> vec3" where
  "face_centroid pts f =
     (case f of (v0, v1, v2) \<Rightarrow> vdiv3 (vadd3 (vadd3 (pts ! nat v0) (pts ! nat v1)) (pts ! nat v2)) 4)"

definition weighted_centroids_sum :: "real Mesh \<Rightarrow> vec3" where
  "weighted_centroids_sum mesh =
     vsum3 (map (\<lambda>f. vscale3 (face_centroid (points mesh) f) (signed_volume (points mesh) f))
              (faces mesh))"

subsection \<open>\<open>scale_mesh\<close>\<close>

definition scale_mesh :: "real Mesh \<Rightarrow> real \<Rightarrow> bool \<Rightarrow> error + npfloat Mesh" where
  "scale_mesh mesh scale about_origin =
     (if scale \<le> 0 then Inl ValueError
      else
        (case (if about_origin then Inr (Fin 0, Fin 0, Fin 0) else get_center_of_mass mesh) of
           Inl e \<Rightarrow> Inl e
         | Inr com \<Rightarrow>
             Inr \<lparr>points = map (\<lambda>p. np_vadd3 (np_vscale3 (np_vsub3 (fin3 p) com) scale) com)
                             (points mesh),
                  faces = faces mesh\<rparr>))"

subsection \<open>Two-dimensional arrays\<close>

text \<open>
  A two-dimensional numpy array is the list of its rows. \<open>is_matrix r c M\<close> is
  \<open>M.shape == (r, c)\<close>; \<open>matmul\<close> is \<open>np.dot\<close> and \<open>@\<close> on two-dimensional
  arrays, \<open>mtranspose\<close> is \<open>.T\<close>.
\<close>

definition is_matrix :: "nat \<Rightarrow> nat \<Rightarrow> 'a list list \<Rightarrow> bool" where
  "is_matrix r c M = (length M = r \<and> list_all (\<lambda>row. length row = c) M)"

definition ncols :: "'a list list \<Rightarrow> nat" where
  "ncols M = (case M of [] \<Rightarrow> 0 | row # rows \<Rightarrow> length row)"

fun dotl :: "real list \<Rightarrow> real list \<Rightarrow> real" where
  "dotl (x # xs) (y # ys) = x * y + dotl xs ys"
| "dotl xs ys = 0"

definition column :: "'a list list \<Rightarrow> nat \<Rightarrow> 'a list" where
  "column M j = map (\<lambda>row. row ! j) M"

definition mtranspose :: "'a list list \<Rightarrow> 'a list list" where
  "mtranspose M = map (column M) [0..<ncols M]"

definition matmul :: "real list list \<Rightarrow> real list list \<Rightarrow> real list list" where
  "matmul A B = map (\<lambda>row. map (dotl row) (mtranspose B)) A"

definition eye :: "nat \<Rightarrow> real list list" where
  "eye n = map (\<lambda>i. map (\<lambda>j. if i = j then 1 else 0) [0..<n]) [0..<n]"

subsection \<open>\<open>rotation_matrix_to_euler_angles\<close>\<close>

text \<open>
  \<open>math.atan2(y, x)\<close> on finite numbers: the angle in \<open>(-pi, pi]\<close> of the point
  \<open>(x, y)\<close>, and 0 at the origin. (The sign of a floating-point zero, which selects
  between \<open>pi\<close> and \<open>-pi\<close> on the negative x-axis, is not modelled; the two angles have
  the same sine and cosine.) The literal \<open>1e-6\<close> is the real number \<open>1 / 1000000\<close>.
\<close>

definition atan2 :: "real \<Rightarrow> real \<Rightarrow> real" where
  "atan2 y x =
     (if 0 < x then arctan (y / x)
      else if x < 0 then (if 0 \<le> y then arctan (y / x) + pi else arctan (y / x) - pi)
      else if 0 < y then pi / 2
      else if y < 0 then - pi / 2
      else 0)"

text \<open>
  The function reads the entries \<open>[0,0]\<close>, \<open>[1,0]\<close>, \<open>[1,1]\<close>, \<open>[1,2]\<close>, \<open>[2,0]\<close>,
  \<open>[2,1]\<close>, \<open>[2,2]\<close>; on an array with fewer than three rows or columns one of the reads
  of either branch raises IndexError.
\<close>

definition at_least_3x3 :: "'a list list \<Rightarrow> bool" where
  "at_least_3x3 M = (3 \<le> length M \<and> list_all (\<lambda>row. 3 \<le> length row) M)"

definition rotation_matrix_to_euler_angles :: "real list list \<Rightarrow> error + real \<times> real \<times> real" where
  "rotation_matrix_to_euler_angles rotation_matrix =
     (if \<not> at_least_3x3 rotation_matrix then Inl IndexError
      else
        let sy = sqrt (rotation_matrix ! 0 ! 0 * rotation_matrix ! 0 ! 0
                       + rotation_matrix ! 1 ! 0 * rotation_matrix ! 1 ! 0);
            singular = (sy < 1 / 1000000)
        in if singular
           then Inr (atan2 (- (rotation_matrix ! 1 ! 2)) (rotation_matrix ! 1 ! 1),
                     atan2 (- (rotation_matrix ! 2 ! 0)) sy,
                     0)
           else Inr (atan2 (rotation_matrix ! 2 ! 1) (rotation_matrix ! 2 ! 2),
                     atan2 (- (rotation_matrix ! 2 ! 0)) sy,
                     atan2 (rotation_matrix ! 1 ! 0) (rotation_matrix ! 0 ! 0)))"

subsection \<open>\<open>inv_tf\<close>\<close>

text \<open>
  \<open>np.linalg.inv\<close> is the inverse of a square matrix and raises LinAlgError on a
  matrix that is not square or is singular. The inverse is given by the adjugate and the
  determinant, the determinant by expansion along the first row.
\<close>

definition del_at :: "nat \<Rightarrow> 'a list \<Rightarrow> 'a list" where
  "del_at j xs = take j xs @ drop (Suc j) xs"

definition minor_m :: "'a list list \<Rightarrow> nat \<Rightarrow> nat \<Rightarrow> 'a list list" where
  "minor_m M i j = map (del_at j) (del_at i M)"

fun det_n :: "nat \<Rightarrow> real list list \<Rightarrow> real" where
  "det_n 0 M = 1"
| "det_n (Suc n) M =
     sum_list (map (\<lambda>j. (- 1) ^ j * (M ! 0 ! j) * det_n n (minor_m M 0 j)) [0..<Suc n])"

definition det_m :: "real list list \<Rightarrow> real" where
  "det_m M = det_n (length M) M"

definition adjugate :: "real list list \<Rightarrow> real list list" where
  "adjugate M =
     map (\<lambda>i. map (\<lambda>j. (- 1) ^ (i + j) * det_m (minor_m M j i)) [0..<length M]) [0..<length M]"

definition linalg_inv :: "real list list \<Rightarrow> error + real list list" where
  "linalg_inv M =
     (if \<not> is_matrix (length M) (length M) M then Inl LinAlgError
      else if det_m M = 0 then Inl LinAlgError
      else Inr (map (map (\<lambda>a. a / det_m M)) (adjugate M)))"

definition inv_tf :: "real list list \<Rightarrow> error + real list list" where
  "inv_tf a_to_b_tf = linalg_inv a_to_b_tf"

subsection \<open>\<open>transform_inertia_tensor\<close>\<close>

text \<open>
  The inertia is a list of floats or a matrix; \<open>np.array(inertia).reshape(3, 3)\<close> raises
  ValueError unless it has nine entries. \<open>rotation.T @ inertia_matrix @ rotation\<close> raises
  ValueError unless the rotation has three rows.
\<close>

datatype inertia_arg = FlatList "real list" | Matrix "real list list"

fun entries :: "inertia_arg \<Rightarrow> real list" where
  "entries (FlatList xs) = xs"
| "entries (Matrix M) = concat M"

definition reshape_3_3 :: "real list \<Rightarrow> error + real list list" where
  "reshape_3_3 xs =
     (if length xs = 9 then Inr [take 3 xs, take 3 (drop 3 xs), drop 6 xs] else Inl ValueError)"

definition transform_inertia_tensor :: "inertia_arg \<Rightarrow> real list list \<Rightarrow> error + real list list" where
  "transform_inertia_tensor inertia rotation =
     (case reshape_3_3 (entries inertia) of
        Inl e \<Rightarrow> Inl e
      | Inr inertia_matrix \<Rightarrow>
          if is_matrix 3 (ncols rotation) rotation
          then Inr (matmul (matmul (mtranspose rotation) inertia_matrix) rotation)
          else Inl ValueError)"

text \<open>The entries of \<open>R^T I R\<close>: entry \<open>(i, j)\<close> is the sum of \<open>R[k,i] * I[k,l] * R[l,j]\<close>.\<close>

definition rotated_entry :: "real list list \<Rightarrow> real list list \<Rightarrow> nat \<Rightarrow> nat \<Rightarrow> real" where
  "rotated_entry R I i j =
     (\<Sum>k\<leftarrow>[0..<3]. \<Sum>l\<leftarrow>[0..<3]. R ! k ! i * I ! k ! l * R ! l ! j)"

definition rotated_tensor :: "real list list \<Rightarrow> real list list \<Rightarrow> real list list" where
  "rotated_tensor R I = map (\<lambda>i. map (\<lambda>j. rotated_entry R I i j) [0..<3]) [0..<3]"

subsection \<open>\<open>matrix_to_moments\<close>\<close>

text \<open>
  The values of the dictionary are \<open>str(matrix[i, j])\<close>. \<open>StrOf x\<close> is the text that
  \<open>str\<close> gives for the float \<open>x\<close> (its characters are a matter of floating-point
  formatting); \<open>Number x\<close> is the float itself.
\<close>

datatype pyval = Number real | StrOf real

definition matrix_to_moments :: "real list list \<Rightarrow> error + (string \<rightharpoonup> pyval)" where
  "matrix_to_moments matrix =
     (if \<not> at_least_3x3 matrix then Inl IndexError
      else Inr [''ixx'' \<mapsto> StrOf (matrix ! 0 ! 0),
                ''ixy'' \<mapsto> StrOf (matrix ! 0 ! 1),
                ''ixz'' \<mapsto> StrOf (matrix ! 0 ! 2),
                ''iyy'' \<mapsto> StrOf (matrix ! 1 ! 1),
                ''iyz'' \<mapsto> StrOf (matrix ! 1 ! 2),
                ''izz'' \<mapsto> StrOf (matrix ! 2 ! 2)])"

subsection \<open>\<open>apply_transform\<close> and \<open>combine_meshes\<close>\<close>

text \<open>
  \<open>np.hstack([points, ones])\<close>, the product with \<open>transform.T\<close>, and the slice
  \<open>[:, :3]\<close>.
\<close>

definition apply_transform :: "vec3 list \<Rightarrow> real list list \<Rightarrow> vec3 list" where
  "apply_transform pts transform =
     (let points_homogeneous = map (\<lambda>(x, y, z). [x, y, z, 1]) pts;
          transformed_points_homogeneous = matmul points_homogeneous (mtranspose transform)
      in map (\<lambda>row. (row ! 0, row ! 1, row ! 2)) transformed_points_homogeneous)"

text \<open>
  The argument \<open>relative_transform\<close> of \<open>combine_meshes\<close> is tested with
  \<open>isinstance(relative_transform, np.ndarray)\<close> and \<open>.shape != (4, 4)\<close>: it is a
  two-dimensional array or another object. (An array of another dimension fails the shape
  test as a two-dimensional array of another shape does.)
\<close>

datatype pyarg = NdArray "real list list" | NotNdArray

fun is_4x4_array :: "pyarg \<Rightarrow> bool" where
  "is_4x4_array (NdArray T) = is_matrix 4 4 T"
| "is_4x4_array NotNdArray = False"

definition offset_face :: "int \<Rightarrow> int \<times> int \<times> int \<Rightarrow> int \<times> int \<times> int" where
  "offset_face n f = (case f of (v0, v1, v2) \<Rightarrow> (v0 + n, v1 + n, v2 + n))"

definition combine_meshes :: "real Mesh \<Rightarrow> real Mesh \<Rightarrow> pyarg \<Rightarrow> error + real Mesh" where
  "combine_meshes parent_mesh child_mesh relative_transform =
     (case relative_transform of
        NotNdArray \<Rightarrow> Inl ValueError
      | NdArray T \<Rightarrow>
          if \<not> is_matrix 4 4 T then Inl ValueError
          else
            let transformed_child_points = apply_transform (points child_mesh) T;
                combined_points = points parent_mesh @ transformed_child_points;
                offset_child_faces =
                  map (offset_face (int (length (points parent_mesh)))) (faces child_mesh);
                combined_faces = faces parent_mesh @ offset_child_faces
            in Inr \<lparr>points = combined_points, faces = combined_faces\<rparr>)"

text \<open>The affine map of a 4x4 transform on one point: rotation block times point plus translation.\<close>

definition transform_point :: "real list list \<Rightarrow> vec3 \<Rightarrow> vec3" where
  "transform_point T p =
     (case p of (x, y, z) \<Rightarrow>
        (T ! 0 ! 0 * x + T ! 0 ! 1 * y + T ! 0 ! 2 * z + T ! 0 ! 3,
         T ! 1 ! 0 * x + T ! 1 ! 1 * y + T ! 1 ! 2 * z + T ! 1 ! 3,
         T ! 2 ! 0 * x + T ! 2 ! 1 * y + T ! 2 ! 2 * z + T ! 2 ! 3))"

subsection \<open>\<open>origin_and_rpy_to_transform\<close>\<close>

text \<open>
  The two arguments are one-dimensional arrays; a shape other than \<open>(3,)\<close> raises
  ValueError.
\<close>

definition origin_and_rpy_to_transform :: "real list \<Rightarrow> real list \<Rightarrow> error + real list list" where
  "origin_and_rpy_to_transform relative_origin relative_rpy =
     (if length relative_origin \<noteq> 3 then Inl ValueError
      else if length relative_rpy \<noteq> 3 then Inl ValueError
      else
        let x = relative_origin ! 0; y = relative_origin ! 1; z = relative_origin ! 2;
            roll = relative_rpy ! 0; pitch = relative_rpy ! 1; yaw = relative_rpy ! 2;
            translation = [[1, 0, 0, x],
                           [0, 1, 0, y],
                           [0, 0, 1, z],
                           [0, 0, 0, 1]];
            roll_matrix = [[1, 0, 0, 0],
                           [0, cos roll, - sin roll, 0],
                           [0, sin roll, cos roll, 0],
                           [0, 0, 0, 1]];
            pitch_matrix = [[cos pitch, 0, sin pitch, 0],
                            [0, 1, 0, 0],
                            [- sin pitch, 0, cos pitch, 0],
                            [0, 0, 0, 1]];
            yaw_matrix = [[cos yaw, - sin yaw, 0, 0],
                          [sin yaw, cos yaw, 0, 0],
                          [0, 0, 1, 0],
                          [0, 0, 0, 1]];
            rpy = matmul yaw_matrix (matmul pitch_matrix roll_matrix)
        in Inr (matmul translation rpy))"

text \<open>The rotation block \<open>T[0:3, 0:3]\<close> of a transform.\<close>

definition rotation_block :: "real list list \<Rightarrow> real list list" where
  "rotation_block T = map (take 3) (take 3 T)"

text \<open>
  A rotation matrix of the data model: 3x3, orthonormal (\<open>R R^T = I\<close>), determinant 1.
\<close>

definition is_rotation :: "real list list \<Rightarrow> bool" where
  "is_rotation R = (is_matrix 3 3 R \<and> matmul R (mtranspose R) = eye 3 \<and> det_m R = 1)"
subsection \<open>\<open>combine_dynamics\<close>\<close>

record Dynamics =
  mass :: real
  com :: vec3
  inertia :: mat3








subsection \<open>Properties of \<open>combine_dynamics\<close>\<close>

lemma vadd3_zeros3 [simp]: "vadd3 zeros3 v = v" "vadd3 v zeros3 = v"
  by (cases v; simp add: zeros3_def)+

lemma vadd3_assoc: "vadd3 (vadd3 u v) w = vadd3 u (vadd3 v w)"
  by (cases u; cases v; cases w) simp

lemma vadd3_commute: "vadd3 u v = vadd3 v u"
  by (cases u; cases v) simp

lemma madd3_zeros33 [simp]: "madd3 zeros33 m = m" "madd3 m zeros33 = m"
  by (cases m; simp add: zeros33_def)+


lemma vscale3_zero [simp]: "vscale3 v 0 = zeros3"
  by (cases v) (simp add: zeros3_def)







subsection \<open>Properties of \<open>get_center_of_mass\<close> and \<open>scale_mesh\<close>\<close>

lemma np_index_valid: "valid_index pts v \<Longrightarrow> np_index pts v = Inr (pts ! nat v)"
  by (simp add: valid_index_def np_index_def)

lemma center_loop_valid:
  assumes "list_all (\<lambda>(v0, v1, v2). valid_index pts v0 \<and> valid_index pts v1 \<and> valid_index pts v2) fs"
  shows "center_loop pts (tv, c) fs =
           Inr (tv + sum_list (map (signed_volume pts) fs),
                vadd3 c (vsum3 (map (\<lambda>f. vscale3 (face_centroid pts f) (signed_volume pts f)) fs)))"
  using assms
proof (induction fs arbitrary: tv c)
  case Nil
  then show ?case by simp
next
  case (Cons f fs)
  obtain v0 v1 v2 where f: "f = (v0, v1, v2)" by (cases f) auto
  from Cons.prems f have v: "valid_index pts v0" "valid_index pts v1" "valid_index pts v2"
    and rest: "list_all (\<lambda>(v0, v1, v2). valid_index pts v0 \<and> valid_index pts v1 \<and> valid_index pts v2) fs"
    by simp_all
  show ?case
    by (simp add: Cons.IH [OF rest] f np_index_valid v signed_volume_def face_centroid_def
        Let_def add.assoc vadd3_assoc)
qed

lemma center_loop_mesh:
  "valid_mesh mesh \<Longrightarrow>
     center_loop (points mesh) (0, zeros3) (faces mesh) =
       Inr (signed_volumes_sum mesh, weighted_centroids_sum mesh)"
  by (simp add: valid_mesh_def center_loop_valid signed_volumes_sum_def weighted_centroids_sum_def)

lemma np_index_error: "np_index xs v = Inl e \<Longrightarrow> e = IndexError"
  by (simp add: np_index_def split: if_splits)

lemma center_loop_error: "center_loop pts (tv, c) fs = Inl e \<Longrightarrow> e = IndexError"
proof (induction fs arbitrary: tv c)
  case Nil
  then show ?case by simp
next
  case (Cons f fs)
  obtain v0 v1 v2 where f: "f = (v0, v1, v2)" by (cases f) auto
  show ?case
  proof (cases "np_index pts v0")
    case (Inl e0)
    with Cons.prems show ?thesis by (simp add: f np_index_error)
  next
    case p0: (Inr p0)
    show ?thesis
    proof (cases "np_index pts v1")
      case (Inl e1)
      with Cons.prems p0 show ?thesis by (simp add: f np_index_error)
    next
      case p1: (Inr p1)
      show ?thesis
      proof (cases "np_index pts v2")
        case (Inl e2)
        with Cons.prems p0 p1 show ?thesis by (simp add: f np_index_error)
      next
        case p2: (Inr p2)
        from Cons.prems show ?thesis
          unfolding f center_loop.simps p0 p1 p2 sum.case Let_def by (rule Cons.IH)
      qed
    qed
  qed
qed

lemma get_center_of_mass_error: "get_center_of_mass mesh = Inl e \<Longrightarrow> e = IndexError"
  by (cases "center_loop (points mesh) (0, zeros3) (faces mesh)")
     (auto simp: get_center_of_mass_def dest: center_loop_error)


lemma np_div_nonzero: "b \<noteq> 0 \<Longrightarrow> np_div a b = Fin (a / b)"
  by (simp add: np_div_def)



lemma get_center_of_mass_valid:
  assumes "valid_mesh mesh" and "weighted_centroids_sum mesh = (cx, cy, cz)"
  shows "get_center_of_mass mesh =
           Inr (np_div cx (signed_volumes_sum mesh), np_div cy (signed_volumes_sum mesh),
                np_div cz (signed_volumes_sum mesh))"
  using assms by (simp add: get_center_of_mass_def center_loop_mesh)


lemma center_of_valid_mesh:
  assumes "valid_mesh mesh"
  shows "\<exists>c. get_center_of_mass mesh = Inr c"
  using assms
  by (cases "weighted_centroids_sum mesh") (simp add: get_center_of_mass_def center_loop_mesh)




text \<open>
  Claim C7. \<open>scale_mesh\<close> raises the ValueError exactly when \<open>scale \<le> 0\<close>. For a
  positive scale it returns the mesh whose points are \<open>(points - pivot) * scale + pivot\<close> and
  whose faces are those of the input: with \<open>about_origin\<close> the pivot is the origin, without
  it, on a mesh with valid face indices, the pivot is the result of
  \<open>get_center_of_mass\<close>.
\<close>

theorem scale_mesh_spec:
  "(scale_mesh mesh scale about_origin = Inl ValueError \<longleftrightarrow> scale \<le> 0)
   \<and> (0 < scale \<longrightarrow>
        scale_mesh mesh scale True =
          Inr \<lparr>points = map (\<lambda>p. np_vadd3 (np_vscale3 (np_vsub3 (fin3 p) (Fin 0, Fin 0, Fin 0)) scale)
                                 (Fin 0, Fin 0, Fin 0)) (points mesh),
               faces = faces mesh\<rparr>)
   \<and> (0 < scale \<and> valid_mesh mesh \<longrightarrow>
        (\<exists>pivot. get_center_of_mass mesh = Inr pivot
           \<and> scale_mesh mesh scale False =
               Inr \<lparr>points = map (\<lambda>p. np_vadd3 (np_vscale3 (np_vsub3 (fin3 p) pivot) scale) pivot)
                                 (points mesh),
                    faces = faces mesh\<rparr>))"
proof (intro conjI impI)
  show "scale_mesh mesh scale about_origin = Inl ValueError \<longleftrightarrow> scale \<le> 0"
  proof (cases "get_center_of_mass mesh")
    case (Inl e)
    have "e = IndexError"
      using Inl by (rule get_center_of_mass_error)
    then show ?thesis using Inl by (simp add: scale_mesh_def)
  next
    case (Inr c)
    then show ?thesis by (simp add: scale_mesh_def)
  qed
next
  assume "0 < scale"
  then show "scale_mesh mesh scale True =
      Inr \<lparr>points = map (\<lambda>p. np_vadd3 (np_vscale3 (np_vsub3 (fin3 p) (Fin 0, Fin 0, Fin 0)) scale)
                             (Fin 0, Fin 0, Fin 0)) (points mesh),
           faces = faces mesh\<rparr>"
    by (simp add: scale_mesh_def)
next
  assume a: "0 < scale \<and> valid_mesh mesh"
  then obtain c where "get_center_of_mass mesh = Inr c"
    using center_of_valid_mesh by blast
  with a show "\<exists>pivot. get_center_of_mass mesh = Inr pivot
      \<and> scale_mesh mesh scale False =
          Inr \<lparr>points = map (\<lambda>p. np_vadd3 (np_vscale3 (np_vsub3 (fin3 p) pivot) scale) pivot)
                            (points mesh),
               faces = faces mesh\<rparr>"
    by (simp add: scale_mesh_def)
qed

theorem scale_mesh_spec_witness:
  "(scale_mesh \<lparr>points = [(1, 0, 0), (0, 1, 0), (0, 0, 1)], faces = [(0, 1, 2)]\<rparr> (- 1) False
      = Inl ValueError \<longleftrightarrow> (- 1 :: real) \<le> 0)
   \<and> (0 :: real) < 2
   \<and> valid_mesh \<lparr>points = [(1, 0, 0), (0, 1, 0), (0, 0, 1 :: real)], faces = [(0, 1, 2)]\<rparr>
   \<and> scale_mesh \<lparr>points = [(1, 0, 0), (0, 1, 0), (0, 0, 1)], faces = [(0, 1, 2)]\<rparr> 2 True
       = Inr \<lparr>points = [(Fin 2, Fin 0, Fin 0), (Fin 0, Fin 2, Fin 0), (Fin 0, Fin 0, Fin 2)],
              faces = [(0, 1, 2)]\<rparr>
   \<and> get_center_of_mass \<lparr>points = [(1, 0, 0), (0, 1, 0), (0, 0, 1)], faces = [(0, 1, 2)]\<rparr>
       = Inr (Fin (1 / 4), Fin (1 / 4), Fin (1 / 4))
   \<and> scale_mesh \<lparr>points = [(1, 0, 0), (0, 1, 0), (0, 0, 1)], faces = [(0, 1, 2)]\<rparr> 2 False
       = Inr \<lparr>points = [(Fin (7 / 4), Fin (- 1 / 4), Fin (- 1 / 4)),
                        (Fin (- 1 / 4), Fin (7 / 4), Fin (- 1 / 4)),
                        (Fin (- 1 / 4), Fin (- 1 / 4), Fin (7 / 4))],
              faces = [(0, 1, 2)]\<rparr>"
proof -
  let ?m = "\<lparr>points = [(1, 0, 0), (0, 1, 0), (0, 0, 1)], faces = [(0, 1, 2)]\<rparr> :: real Mesh"
  have v: "valid_mesh ?m" by (simp add: valid_mesh_def valid_index_def)
  have c: "get_center_of_mass ?m = Inr (Fin (1 / 4), Fin (1 / 4), Fin (1 / 4))"
    by (simp add: get_center_of_mass_def np_index_def zeros3_def np_div_def)
  from scale_mesh_spec [of ?m "- 1" False] scale_mesh_spec [of ?m 2 False] v c
  show ?thesis by (simp add: np_sub_def)
qed

lemma scale_mesh_default_raises:
  "0 < scale \<Longrightarrow> get_center_of_mass mesh = Inl e \<Longrightarrow> scale_mesh mesh scale False = Inl e"
  by (simp add: scale_mesh_def)



subsection \<open>Arrays of a known shape\<close>

lemma length_3_list: "length xs = 3 \<Longrightarrow> \<exists>a b c. xs = [a, b, c]"
  by (auto simp: length_Suc_conv eval_nat_numeral)

lemma length_4_list: "length xs = 4 \<Longrightarrow> \<exists>a b c d. xs = [a, b, c, d]"
  by (auto simp: length_Suc_conv eval_nat_numeral)

lemma matrix_3_3_rows:
  assumes "is_matrix 3 3 M"
  shows "\<exists>a b c d e f g h i. M = [[a, b, c], [d, e, f], [g, h, i]]"
proof -
  from assms obtain r0 r1 r2 where M: "M = [r0, r1, r2]"
    unfolding is_matrix_def using length_3_list by blast
  with assms have "length r0 = 3" "length r1 = 3" "length r2 = 3"
    by (simp_all add: is_matrix_def)
  then show ?thesis
    unfolding M using length_3_list by metis
qed

lemma matrix_4_4_rows:
  assumes "is_matrix 4 4 M"
  shows "\<exists>r0 r1 r2 r3. M = [r0, r1, r2, r3]
           \<and> length r0 = 4 \<and> length r1 = 4 \<and> length r2 = 4 \<and> length r3 = 4"
proof -
  from assms obtain r0 r1 r2 r3 where M: "M = [r0, r1, r2, r3]"
    unfolding is_matrix_def using length_4_list by blast
  with assms show ?thesis by (simp add: is_matrix_def)
qed

lemma upt_3: "[0..<3] = [0, 1, 2]"
  by (simp add: eval_nat_numeral)

lemma upt_4: "[0..<4] = [0, 1, 2, 3]"
  by (simp add: eval_nat_numeral)

lemma is_matrix_at_least_3x3: "is_matrix 3 3 M \<Longrightarrow> at_least_3x3 M"
  by (simp add: is_matrix_def at_least_3x3_def list_all_iff)

subsection \<open>Properties of \<open>combine_meshes\<close>\<close>

lemma apply_transform_rows:
  "apply_transform pts [[a, b, c, d], [e, f, g, h], [i, j, k, l], [m, n, p, q]]
     = map (transform_point [[a, b, c, d], [e, f, g, h], [i, j, k, l], [m, n, p, q]]) pts"
  by (simp add: apply_transform_def transform_point_def matmul_def mtranspose_def column_def
      ncols_def upt_4 split: prod.splits)

lemma apply_transform_affine:
  assumes "is_matrix 4 4 T"
  shows "apply_transform pts T = map (transform_point T) pts"
proof -
  from matrix_4_4_rows [OF assms] obtain r0 r1 r2 r3 where T: "T = [r0, r1, r2, r3]"
    and l: "length r0 = 4" "length r1 = 4" "length r2 = 4" "length r3 = 4"
    by blast
  from l obtain a b c d e f g h i j k l m n p q where
    "r0 = [a, b, c, d]" "r1 = [e, f, g, h]" "r2 = [i, j, k, l]" "r3 = [m, n, p, q]"
    using length_4_list by metis
  then show ?thesis
    unfolding T by (simp only: apply_transform_rows)
qed

text \<open>
  Claim C3. \<open>combine_meshes\<close> raises its ValueError, and fails at all, exactly when
  \<open>relative_transform\<close> is not a 4x4 array. Otherwise it returns the mesh whose points are
  the parent's points followed by the child's points under the affine map of the transform,
  in their order, and whose faces are the parent's faces followed by the child's faces with
  \<open>len(parent.points)\<close> added to every index; the result has
  \<open>len(parent.points) + len(child.points)\<close> points and
  \<open>len(parent.faces) + len(child.faces)\<close> faces.
\<close>

theorem combine_meshes_spec:
  "(if is_4x4_array relative_transform
    then \<exists>T. relative_transform = NdArray T
           \<and> combine_meshes parent child relative_transform =
               Inr \<lparr>points = points parent @ map (transform_point T) (points child),
                    faces = faces parent
                            @ map (\<lambda>(v0, v1, v2). (v0 + int (length (points parent)),
                                     v1 + int (length (points parent)),
                                     v2 + int (length (points parent)))) (faces child)\<rparr>
           \<and> length (points (projr (combine_meshes parent child relative_transform)))
               = length (points parent) + length (points child)
           \<and> length (faces (projr (combine_meshes parent child relative_transform)))
               = length (faces parent) + length (faces child)
    else combine_meshes parent child relative_transform = Inl ValueError)"
proof (cases relative_transform)
  case (NdArray T)
  have off: "offset_face n = (\<lambda>(v0, v1, v2). (v0 + n, v1 + n, v2 + n))" for n
    by (rule ext) (simp add: offset_face_def)
  show ?thesis
  proof (cases "is_matrix 4 4 T")
    case True
    then show ?thesis
      by (simp add: NdArray combine_meshes_def apply_transform_affine off Let_def)
  next
    case False
    then show ?thesis by (simp add: NdArray combine_meshes_def)
  qed
next
  case NotNdArray
  then show ?thesis by (simp add: combine_meshes_def)
qed

theorem combine_meshes_spec_witness:
  "is_4x4_array (NdArray (eye 4))
   \<and> combine_meshes \<lparr>points = [(0, 0, 0), (1, 0, 0), (0, 1, 0)], faces = [(0, 1, 2)]\<rparr>
        \<lparr>points = [(0, 0, 0), (1, 0, 0), (0, 1, 0)], faces = [(0, 1, 2)]\<rparr> (NdArray (eye 4))
       = Inr \<lparr>points = [(0, 0, 0), (1, 0, 0), (0, 1, 0), (0, 0, 0), (1, 0, 0), (0, 1, 0)],
              faces = [(0, 1, 2), (3, 4, 5)]\<rparr>
   \<and> \<not> is_4x4_array (NdArray (eye 3))
   \<and> combine_meshes \<lparr>points = [(0, 0, 0), (1, 0, 0), (0, 1, 0)], faces = [(0, 1, 2)]\<rparr>
        \<lparr>points = [(0, 0, 0), (1, 0, 0), (0, 1, 0)], faces = [(0, 1, 2)]\<rparr> (NdArray (eye 3))
       = Inl ValueError"
proof -
  let ?m = "\<lparr>points = [(0, 0, 0), (1, 0, 0), (0, 1, 0)], faces = [(0, 1, 2)]\<rparr> :: real Mesh"
  have e4: "is_4x4_array (NdArray (eye 4))"
    by (simp add: eye_def upt_4 is_matrix_def)
  have e3: "\<not> is_4x4_array (NdArray (eye 3))"
    by (simp add: eye_def upt_3 is_matrix_def)
  from combine_meshes_spec [of "NdArray (eye 4)" ?m ?m]
    combine_meshes_spec [of "NdArray (eye 3)" ?m ?m] e4 e3
  show ?thesis
    by (simp add: transform_point_def eye_def upt_4)
qed

subsection \<open>Properties of \<open>rotation_matrix_to_euler_angles\<close>\<close>

text \<open>
  Claim C4. For every 3x3 matrix \<open>R\<close>, with \<open>sy = sqrt(R[0,0]^2 + R[1,0]^2)\<close>, the
  function returns \<open>(atan2(-R[1,2], R[1,1]), atan2(-R[2,0], sy), 0)\<close> if \<open>sy < 1e-6\<close> and
  \<open>(atan2(R[2,1], R[2,2]), atan2(-R[2,0], sy), atan2(R[1,0], R[0,0]))\<close> otherwise.
\<close>

theorem euler_angles_formula:
  assumes "is_matrix 3 3 R"
  shows "rotation_matrix_to_euler_angles R =
           Inr (if sqrt ((R ! 0 ! 0)\<^sup>2 + (R ! 1 ! 0)\<^sup>2) < 1 / 10 ^ 6
                then (atan2 (- (R ! 1 ! 2)) (R ! 1 ! 1),
                      atan2 (- (R ! 2 ! 0)) (sqrt ((R ! 0 ! 0)\<^sup>2 + (R ! 1 ! 0)\<^sup>2)),
                      0)
                else (atan2 (R ! 2 ! 1) (R ! 2 ! 2),
                      atan2 (- (R ! 2 ! 0)) (sqrt ((R ! 0 ! 0)\<^sup>2 + (R ! 1 ! 0)\<^sup>2)),
                      atan2 (R ! 1 ! 0) (R ! 0 ! 0)))"
  using is_matrix_at_least_3x3 [OF assms]
  by (simp add: rotation_matrix_to_euler_angles_def Let_def power2_eq_square)

lemma atan2_pos_axis [simp]: "atan2 0 1 = 0"
  by (simp add: atan2_def)

lemma atan2_up_axis [simp]: "atan2 1 0 = pi / 2"
  by (simp add: atan2_def)

theorem euler_angles_formula_witness:
  "is_matrix 3 3 [[1, 0, 0], [0, 1, 0], [0, 0, 1 :: real]]
   \<and> rotation_matrix_to_euler_angles [[1, 0, 0], [0, 1, 0], [0, 0, 1]] = Inr (0, 0, 0)
   \<and> is_matrix 3 3 [[0, 0, 1], [0, 1, 0], [- 1, 0, 0 :: real]]
   \<and> rotation_matrix_to_euler_angles [[0, 0, 1], [0, 1, 0], [- 1, 0, 0]] = Inr (0, pi / 2, 0)"
proof -
  have i: "is_matrix 3 3 [[1, 0, 0], [0, 1, 0], [0, 0, 1 :: real]]"
    by (simp add: is_matrix_def)
  have y: "is_matrix 3 3 [[0, 0, 1], [0, 1, 0], [- 1, 0, 0 :: real]]"
    by (simp add: is_matrix_def)
  from euler_angles_formula [OF i] euler_angles_formula [OF y] i y
  show ?thesis by simp
qed

subsection \<open>Properties of \<open>transform_inertia_tensor\<close>\<close>

lemma transform_inertia_rows:
  "matmul (matmul (mtranspose [[a, b, c], [d, e, f], [g, h, i]])
             [[p, q, r], [s, t, u], [v, w, x]]) [[a, b, c], [d, e, f], [g, h, i]]
     = rotated_tensor [[a, b, c], [d, e, f], [g, h, i]] [[p, q, r], [s, t, u], [v, w, x]]"
  by (simp add: matmul_def mtranspose_def column_def ncols_def upt_3 rotated_tensor_def
      rotated_entry_def algebra_simps)

lemma flat_list_rows:
  assumes "length xs = 9"
  shows "\<exists>I. is_matrix 3 3 I \<and> xs = concat I \<and> reshape_3_3 xs = Inr I"
proof -
  let ?I = "[take 3 xs, take 3 (drop 3 xs), drop 6 xs]"
  have "concat ?I = take 3 xs @ (take 3 (drop 3 xs) @ drop 3 (drop 3 xs))"
    by simp
  also have "\<dots> = xs" by (simp only: append_take_drop_id)
  finally have "xs = concat ?I" by simp
  moreover have "is_matrix 3 3 ?I" using assms by (simp add: is_matrix_def)
  moreover have "reshape_3_3 xs = Inr ?I" using assms by (simp add: reshape_3_3_def)
  ultimately show ?thesis by blast
qed

text \<open>
  Claim C8. For every 3x3 inertia tensor \<open>I\<close>, given as the matrix or as the flat list of
  its nine entries (every list of nine entries is the list of the rows of a 3x3 matrix, one
  after the other), and every 3x3 matrix \<open>R\<close>, \<open>transform_inertia_tensor\<close> returns
  \<open>R^T I R\<close>.
\<close>

theorem transform_inertia_tensor_spec:
  assumes "is_matrix 3 3 I" and "is_matrix 3 3 R"
  shows "transform_inertia_tensor (Matrix I) R = Inr (rotated_tensor R I)
         \<and> transform_inertia_tensor (FlatList (concat I)) R = Inr (rotated_tensor R I)"
proof -
  from matrix_3_3_rows [OF assms(1)] obtain p q r s t u v w x where
    I: "I = [[p, q, r], [s, t, u], [v, w, x]]" by blast
  from matrix_3_3_rows [OF assms(2)] obtain a b c d e f g h i where
    R: "R = [[a, b, c], [d, e, f], [g, h, i]]" by blast
  have shape: "is_matrix 3 (ncols R) R"
    by (simp add: R ncols_def is_matrix_def)
  have re: "reshape_3_3 (concat I) = Inr I"
    by (simp add: I reshape_3_3_def)
  show ?thesis
    using shape unfolding transform_inertia_tensor_def entries.simps re
    by (simp add: I R transform_inertia_rows)
qed

theorem transform_inertia_tensor_spec_witness:
  "is_matrix 3 3 [[1, 0, 0], [0, 2, 0], [0, 0, 3 :: real]]
   \<and> is_matrix 3 3 [[0, - 1, 0], [1, 0, 0], [0, 0, 1 :: real]]
   \<and> transform_inertia_tensor (Matrix [[1, 0, 0], [0, 2, 0], [0, 0, 3]])
        [[0, - 1, 0], [1, 0, 0], [0, 0, 1]] = Inr [[2, 0, 0], [0, 1, 0], [0, 0, 3]]
   \<and> transform_inertia_tensor (FlatList [1, 0, 0, 0, 2, 0, 0, 0, 3])
        [[0, - 1, 0], [1, 0, 0], [0, 0, 1]] = Inr [[2, 0, 0], [0, 1, 0], [0, 0, 3]]"
proof -
  have i: "is_matrix 3 3 [[1, 0, 0], [0, 2, 0], [0, 0, 3 :: real]]"
    by (simp add: is_matrix_def)
  have r: "is_matrix 3 3 [[0, - 1, 0], [1, 0, 0], [0, 0, 1 :: real]]"
    by (simp add: is_matrix_def)
  from transform_inertia_tensor_spec [OF i r] i r show ?thesis
    by (simp add: rotated_tensor_def rotated_entry_def upt_3)
qed

subsection \<open>Properties of \<open>matrix_to_moments\<close>\<close>

text \<open>
  Claim C9, as the code has it. For every 3x3 matrix \<open>I\<close>, \<open>matrix_to_moments\<close> returns
  the dictionary with exactly the keys ixx, ixy, ixz, iyy, iyz, izz, which holds the texts
  \<open>str(I[0,0])\<close>, \<open>str(I[0,1])\<close>, \<open>str(I[0,2])\<close>, \<open>str(I[1,1])\<close>, \<open>str(I[1,2])\<close>,
  \<open>str(I[2,2])\<close> respectively.
\<close>

theorem matrix_to_moments_strings:
  assumes "is_matrix 3 3 I"
  shows "\<exists>moments. matrix_to_moments I = Inr moments
           \<and> dom moments = {''ixx'', ''ixy'', ''ixz'', ''iyy'', ''iyz'', ''izz''}
           \<and> moments ''ixx'' = Some (StrOf (I ! 0 ! 0))
           \<and> moments ''ixy'' = Some (StrOf (I ! 0 ! 1))
           \<and> moments ''ixz'' = Some (StrOf (I ! 0 ! 2))
           \<and> moments ''iyy'' = Some (StrOf (I ! 1 ! 1))
           \<and> moments ''iyz'' = Some (StrOf (I ! 1 ! 2))
           \<and> moments ''izz'' = Some (StrOf (I ! 2 ! 2))"
  using is_matrix_at_least_3x3 [OF assms]
  by (auto simp: matrix_to_moments_def)

theorem matrix_to_moments_strings_witness:
  "is_matrix 3 3 [[1, 2, 3], [2, 4, 5], [3, 5, 6 :: real]]
   \<and> (\<exists>moments. matrix_to_moments [[1, 2, 3], [2, 4, 5], [3, 5, 6]] = Inr moments
        \<and> dom moments = {''ixx'', ''ixy'', ''ixz'', ''iyy'', ''iyz'', ''izz''}
        \<and> moments ''ixx'' = Some (StrOf 1)
        \<and> moments ''ixy'' = Some (StrOf 2)
        \<and> moments ''ixz'' = Some (StrOf 3)
        \<and> moments ''iyy'' = Some (StrOf 4)
        \<and> moments ''iyz'' = Some (StrOf 5)
        \<and> moments ''izz'' = Some (StrOf 6))"
proof -
  have m: "is_matrix 3 3 [[1, 2, 3], [2, 4, 5], [3, 5, 6 :: real]]"
    by (simp add: is_matrix_def)
  from matrix_to_moments_strings [OF m] m show ?thesis by simp
qed

text \<open>
  The claim as the specification states it (the dictionary holds the entries themselves)
  fails: the value under ixx is the text of the entry, not the number.
\<close>

theorem matrix_to_moments_numbers_counterexample:
  "matrix_to_moments [[1, 2, 3], [2, 4, 5], [3, 5, 6]]
     \<noteq> Inr [''ixx'' \<mapsto> Number 1, ''ixy'' \<mapsto> Number 2, ''ixz'' \<mapsto> Number 3,
             ''iyy'' \<mapsto> Number 4, ''iyz'' \<mapsto> Number 5, ''izz'' \<mapsto> Number 6]"
proof
  assume "matrix_to_moments [[1, 2, 3], [2, 4, 5], [3, 5, 6]]
     = Inr [''ixx'' \<mapsto> Number 1, ''ixy'' \<mapsto> Number 2, ''ixz'' \<mapsto> Number 3,
            ''iyy'' \<mapsto> Number 4, ''iyz'' \<mapsto> Number 5, ''izz'' \<mapsto> Number 6]"
  then have "[''ixx'' \<mapsto> StrOf 1, ''ixy'' \<mapsto> StrOf 2, ''ixz'' \<mapsto> StrOf 3,
              ''iyy'' \<mapsto> StrOf 4, ''iyz'' \<mapsto> StrOf 5, ''izz'' \<mapsto> StrOf 6]
           = [''ixx'' \<mapsto> Number 1, ''ixy'' \<mapsto> Number 2, ''ixz'' \<mapsto> Number 3,
              ''iyy'' \<mapsto> Number 4, ''iyz'' \<mapsto> Number 5, ''izz'' \<mapsto> Number 6]"
    by (simp add: matrix_to_moments_def at_least_3x3_def)
  then have "[''ixx'' \<mapsto> StrOf 1, ''ixy'' \<mapsto> StrOf 2, ''ixz'' \<mapsto> StrOf 3,
              ''iyy'' \<mapsto> StrOf 4, ''iyz'' \<mapsto> StrOf 5, ''izz'' \<mapsto> StrOf 6] ''ixx''
           = [''ixx'' \<mapsto> Number 1, ''ixy'' \<mapsto> Number 2, ''ixz'' \<mapsto> Number 3,
              ''iyy'' \<mapsto> Number 4, ''iyz'' \<mapsto> Number 5, ''izz'' \<mapsto> Number (6 :: real)] ''ixx''"
    by (rule arg_cong)
  then show False by simp
qed

subsection \<open>Sine and cosine of \<open>atan2\<close>\<close>

lemma sqrt_quotient_pos:
  fixes x y :: real
  assumes "0 < x"
  shows "sqrt (1 + (y / x)\<^sup>2) = sqrt (x\<^sup>2 + y\<^sup>2) / x"
proof -
  have "1 + (y / x)\<^sup>2 = (x\<^sup>2 + y\<^sup>2) / x\<^sup>2"
    using assms by (simp add: power_divide add_divide_distrib)
  then have "sqrt (1 + (y / x)\<^sup>2) = sqrt (x\<^sup>2 + y\<^sup>2) / sqrt (x\<^sup>2)"
    by (simp add: real_sqrt_divide)
  with assms show ?thesis by simp
qed

lemma sqrt_quotient_neg:
  fixes x y :: real
  assumes "x < 0"
  shows "sqrt (1 + (y / x)\<^sup>2) = sqrt (x\<^sup>2 + y\<^sup>2) / (- x)"
proof -
  have "1 + (y / x)\<^sup>2 = (x\<^sup>2 + y\<^sup>2) / x\<^sup>2"
    using assms by (simp add: power_divide add_divide_distrib)
  then have "sqrt (1 + (y / x)\<^sup>2) = sqrt (x\<^sup>2 + y\<^sup>2) / sqrt (x\<^sup>2)"
    by (simp add: real_sqrt_divide)
  with assms show ?thesis by simp
qed

lemma cos_atan2:
  assumes "x \<noteq> 0 \<or> y \<noteq> 0"
  shows "cos (atan2 y x) = x / sqrt (x\<^sup>2 + y\<^sup>2)"
proof -
  consider "0 < x" | "x < 0" | "x = 0" "0 < y" | "x = 0" "y < 0"
    using assms by fastforce
  then show ?thesis
  proof cases
    case 1
    then show ?thesis
      by (simp add: atan2_def cos_arctan sqrt_quotient_pos)
  next
    case 2
    then show ?thesis
      by (simp add: atan2_def cos_arctan sqrt_quotient_neg)
  next
    case 3
    then show ?thesis by (simp add: atan2_def)
  next
    case 4
    then show ?thesis by (simp add: atan2_def)
  qed
qed

lemma sin_atan2:
  assumes "x \<noteq> 0 \<or> y \<noteq> 0"
  shows "sin (atan2 y x) = y / sqrt (x\<^sup>2 + y\<^sup>2)"
proof -
  consider "0 < x" | "x < 0" | "x = 0" "0 < y" | "x = 0" "y < 0"
    using assms by fastforce
  then show ?thesis
  proof cases
    case 1
    then show ?thesis
      by (simp add: atan2_def sin_arctan sqrt_quotient_pos)
  next
    case 2
    then show ?thesis
      by (simp add: atan2_def sin_arctan sqrt_quotient_neg)
  next
    case 3
    then show ?thesis by (simp add: atan2_def)
  next
    case 4
    then show ?thesis by (simp add: atan2_def)
  qed
qed

subsection \<open>Rotation matrices\<close>

lemma det_3_3:
  "det_m [[a, b, c], [d, e, f], [g, h, i]]
     = a * (e * i - f * h) - b * (d * i - f * g) + c * (d * h - e * g)"
  by (simp add: det_m_def minor_m_def del_at_def upt_3 eval_nat_numeral algebra_simps)

lemma rotation_rows:
  assumes "is_rotation [[a, b, c], [d, e, f], [g, h, i]]"
  shows "a * a + b * b + c * c = 1" "d * d + e * e + f * f = 1" "g * g + h * h + i * i = 1"
    "a * d + b * e + c * f = 0" "a * g + b * h + c * i = 0" "d * g + e * h + f * i = 0"
    "a * (e * i - f * h) - b * (d * i - f * g) + c * (d * h - e * g) = 1"
  using assms
  by (simp_all add: is_rotation_def matmul_def mtranspose_def column_def ncols_def upt_3 eye_def
      det_m_def minor_m_def del_at_def eval_nat_numeral algebra_simps)

lemma cross_rows:
  fixes a b c d e f g h i :: real
  assumes "a * a + b * b + c * c = 1" "d * d + e * e + f * f = 1" "g * g + h * h + i * i = 1"
    "a * d + b * e + c * f = 0"
    "a * (e * i - f * h) - b * (d * i - f * g) + c * (d * h - e * g) = 1"
  shows "g = b * f - c * e" "h = c * d - a * f" "i = a * e - b * d"
proof -
  have "(g - (b * f - c * e))\<^sup>2 + (h - (c * d - a * f))\<^sup>2 + (i - (a * e - b * d))\<^sup>2
      = (g * g + h * h + i * i)
        + ((a * a + b * b + c * c) * (d * d + e * e + f * f) - (a * d + b * e + c * f)\<^sup>2)
        - 2 * (a * (e * i - f * h) - b * (d * i - f * g) + c * (d * h - e * g))"
    by (simp add: power2_eq_square algebra_simps)
  also have "\<dots> = 0"
    by (simp only: assms) simp
  finally have z: "(g - (b * f - c * e))\<^sup>2 + ((h - (c * d - a * f))\<^sup>2 + (i - (a * e - b * d))\<^sup>2) = 0"
    by (simp add: add.assoc)
  have "(g - (b * f - c * e))\<^sup>2 = 0" "(h - (c * d - a * f))\<^sup>2 = 0" "(i - (a * e - b * d))\<^sup>2 = 0"
    using z zero_le_power2 [of "g - (b * f - c * e)"] zero_le_power2 [of "h - (c * d - a * f)"]
      zero_le_power2 [of "i - (a * e - b * d)"]
    by linarith+
  then show "g = b * f - c * e" "h = c * d - a * f" "i = a * e - b * d"
    by simp_all
qed

lemma rotation_columns:
  fixes a b c d e f g h i :: real
  assumes "a * a + b * b + c * c = 1" "d * d + e * e + f * f = 1" "g * g + h * h + i * i = 1"
    "a * d + b * e + c * f = 0" "a * g + b * h + c * i = 0" "d * g + e * h + f * i = 0"
    "a * (e * i - f * h) - b * (d * i - f * g) + c * (d * h - e * g) = 1"
  shows "a * a + d * d + g * g = 1"
    and "h * h + i * i = a * a + d * d"
    and "b * (a * a + d * d) = - (a * g * h) - d * i"
    and "c * (a * a + d * d) = d * h - a * g * i"
    and "e * (a * a + d * d) = a * i - d * g * h"
    and "f * (a * a + d * d) = - (a * h) - d * g * i"
proof -
  have r2: "g = b * f - c * e" "h = c * d - a * f" "i = a * e - b * d"
    using assms(1,2,3,4,7) by (rule cross_rows)+
  have det0: "d * (h * c - i * b) - e * (g * c - i * a) + f * (g * b - h * a) = 1"
    using assms(7) by (simp add: algebra_simps)
  have r0: "a = e * i - f * h" "b = f * g - d * i" "c = d * h - e * g"
    using assms(2,3,1,6) det0 by (rule cross_rows)+
  have det1: "g * (b * f - c * e) - h * (a * f - c * d) + i * (a * e - b * d) = 1"
    using assms(7) by (simp add: algebra_simps)
  have o20: "g * a + h * b + i * c = 0"
    using assms(5) by (simp add: algebra_simps)
  have r1: "d = h * c - i * b" "e = i * a - g * c" "f = g * b - h * a"
    using assms(3,1,2) o20 det1 by (rule cross_rows)+
  have "a * a + d * d + g * g = a * (e * i - f * h) + d * (h * c - i * b) + g * (b * f - c * e)"
    by (simp only: r0(1) [symmetric] r1(1) [symmetric] r2(1) [symmetric])
  also have "\<dots> = 1"
    using assms(7) by (simp add: algebra_simps)
  finally show c0: "a * a + d * d + g * g = 1" .
  with assms(3) show "h * h + i * i = a * a + d * d" by linarith
  have "b * a + e * d + h * g = b * (e * i - f * h) + e * (h * c - i * b) + h * (b * f - c * e)"
    by (simp only: r0(1) [symmetric] r1(1) [symmetric] r2(1) [symmetric])
  also have "\<dots> = 0" by (simp add: algebra_simps)
  finally have c01: "a * b + d * e = - (g * h)" by (simp add: algebra_simps)
  have "c * a + f * d + i * g = c * (e * i - f * h) + f * (h * c - i * b) + i * (b * f - c * e)"
    by (simp only: r0(1) [symmetric] r1(1) [symmetric] r2(1) [symmetric])
  also have "\<dots> = 0" by (simp add: algebra_simps)
  finally have c02: "a * c + d * f = - (g * i)" by (simp add: algebra_simps)
  have "b * (a * a + d * d) = a * (a * b + d * e) - d * (a * e - b * d)"
    by (simp add: algebra_simps)
  also have "\<dots> = a * (- (g * h)) - d * i"
    by (simp only: c01 r2(3) [symmetric])
  finally show "b * (a * a + d * d) = - (a * g * h) - d * i" by (simp add: algebra_simps)
  have "c * (a * a + d * d) = a * (a * c + d * f) + d * (c * d - a * f)"
    by (simp add: algebra_simps)
  also have "\<dots> = a * (- (g * i)) + d * h"
    by (simp only: c02 r2(2) [symmetric])
  finally show "c * (a * a + d * d) = d * h - a * g * i" by (simp add: algebra_simps)
  have "e * (a * a + d * d) = d * (a * b + d * e) + a * (a * e - b * d)"
    by (simp add: algebra_simps)
  also have "\<dots> = d * (- (g * h)) + a * i"
    by (simp only: c01 r2(3) [symmetric])
  finally show "e * (a * a + d * d) = a * i - d * g * h" by (simp add: algebra_simps)
  have "f * (a * a + d * d) = d * (a * c + d * f) - a * (c * d - a * f)"
    by (simp add: algebra_simps)
  also have "\<dots> = d * (- (g * i)) - a * h"
    by (simp only: c02 r2(2) [symmetric])
  finally show "f * (a * a + d * d) = - (a * h) - d * g * i" by (simp add: algebra_simps)
qed

subsection \<open>Properties of \<open>origin_and_rpy_to_transform\<close>\<close>

lemma transform_entries:
  "origin_and_rpy_to_transform [x, y, z] [r, p, w] =
     Inr [[cos w * cos p, cos w * sin p * sin r - sin w * cos r, cos w * sin p * cos r + sin w * sin r, x],
          [sin w * cos p, sin w * sin p * sin r + cos w * cos r, sin w * sin p * cos r - cos w * sin r, y],
          [- sin p, cos p * sin r, cos p * cos r, z],
          [0, 0, 0, 1]]"
  by (simp add: origin_and_rpy_to_transform_def matmul_def mtranspose_def column_def ncols_def
      upt_4 Let_def algebra_simps)

lemma quotient_entries:
  fixes s :: real
  assumes "0 < s" and "k * (s * s) = n"
  shows "n / (s * s) = k"
  using assms by (auto simp: field_simps)

lemma round_trip_rows:
  assumes rot: "is_rotation [[a, b, c], [d, e, f], [g, h, i]]"
    and ns: "1 / 10 ^ 6 \<le> sqrt (a * a + d * d)"
  shows "\<exists>roll pitch yaw T.
           rotation_matrix_to_euler_angles [[a, b, c], [d, e, f], [g, h, i]] = Inr (roll, pitch, yaw)
           \<and> origin_and_rpy_to_transform [0, 0, 0] [roll, pitch, yaw] = Inr T
           \<and> rotation_block T = [[a, b, c], [d, e, f], [g, h, i]]"
proof -
  define s where "s = sqrt (a * a + d * d)"
  have s_pos: "0 < s" using ns unfolding s_def by (rule less_le_trans [rotated]) simp
  have nn: "0 \<le> a * a + d * d" by simp
  have s2: "s * s = a * a + d * d"
    unfolding s_def using nn by simp
  note rows = rotation_rows [OF rot]
  note cols = rotation_columns [OF rows]
  have hi: "h * h + i * i = s * s" using cols(2) s2 by simp
  have one: "s * s + g * g = 1" using cols(1) s2 by simp
  have ad: "a \<noteq> 0 \<or> d \<noteq> 0"
  proof (rule ccontr)
    assume "\<not> (a \<noteq> 0 \<or> d \<noteq> 0)"
    then have "s * s = 0" using s2 by simp
    with s_pos show False by simp
  qed
  have ih: "i \<noteq> 0 \<or> h \<noteq> 0"
  proof (rule ccontr)
    assume "\<not> (i \<noteq> 0 \<or> h \<noteq> 0)"
    then have "s * s = 0" using hi by simp
    with s_pos show False by simp
  qed
  have sq_ad: "sqrt (a\<^sup>2 + d\<^sup>2) = s" by (simp add: s_def power2_eq_square)
  have sq_ih: "sqrt (i\<^sup>2 + h\<^sup>2) = s"
  proof -
    have "i\<^sup>2 + h\<^sup>2 = s\<^sup>2" using hi by (simp add: power2_eq_square)
    then show ?thesis using s_pos by simp
  qed
  have sq_sg: "sqrt (s\<^sup>2 + g\<^sup>2) = 1"
    using one by (simp add: power2_eq_square)
  have cy: "cos (atan2 d a) = a / s" and sy: "sin (atan2 d a) = d / s"
    using cos_atan2 [OF ad] sin_atan2 [OF ad] by (simp_all add: sq_ad)
  have cr: "cos (atan2 h i) = i / s" and sr: "sin (atan2 h i) = h / s"
    using cos_atan2 [OF ih] sin_atan2 [OF ih] by (simp_all add: sq_ih)
  have sg: "s \<noteq> 0 \<or> - g \<noteq> 0" using s_pos by simp
  have cp: "cos (atan2 (- g) s) = s" and sp: "sin (atan2 (- g) s) = - g"
    using cos_atan2 [OF sg] sin_atan2 [OF sg] by (simp_all add: sq_sg)
  have ns': "\<not> s < 1 / 1000000" using ns unfolding s_def by simp
  have euler: "rotation_matrix_to_euler_angles [[a, b, c], [d, e, f], [g, h, i]]
      = Inr (atan2 h i, atan2 (- g) s, atan2 d a)"
    using ns' by (simp add: rotation_matrix_to_euler_angles_def at_least_3x3_def Let_def flip: s_def)
  have e00: "a / s * s = a" and e10: "d / s * s = d" and e21: "s * (h / s) = h"
    and e22: "s * (i / s) = i"
    using s_pos by simp_all
  have e01: "a / s * (- g) * (h / s) - d / s * (i / s) = b"
  proof -
    have "a / s * (- g) * (h / s) - d / s * (i / s) = (- (a * g * h) - d * i) / (s * s)"
      using s_pos by (simp add: field_simps)
    also have "\<dots> = b"
      using s_pos cols(3) unfolding s2 [symmetric] by (rule quotient_entries)
    finally show ?thesis .
  qed
  have e02: "a / s * (- g) * (i / s) + d / s * (h / s) = c"
  proof -
    have "a / s * (- g) * (i / s) + d / s * (h / s) = (d * h - a * g * i) / (s * s)"
      using s_pos by (simp add: field_simps)
    also have "\<dots> = c"
      using s_pos cols(4) unfolding s2 [symmetric] by (rule quotient_entries)
    finally show ?thesis .
  qed
  have e11: "d / s * (- g) * (h / s) + a / s * (i / s) = e"
  proof -
    have "d / s * (- g) * (h / s) + a / s * (i / s) = (a * i - d * g * h) / (s * s)"
      using s_pos by (simp add: field_simps)
    also have "\<dots> = e"
      using s_pos cols(5) unfolding s2 [symmetric] by (rule quotient_entries)
    finally show ?thesis .
  qed
  have e12: "d / s * (- g) * (i / s) - a / s * (h / s) = f"
  proof -
    have "d / s * (- g) * (i / s) - a / s * (h / s) = (- (a * h) - d * g * i) / (s * s)"
      using s_pos by (simp add: field_simps)
    also have "\<dots> = f"
      using s_pos cols(6) unfolding s2 [symmetric] by (rule quotient_entries)
    finally show ?thesis .
  qed
  have "rotation_block
      [[cos (atan2 d a) * cos (atan2 (- g) s),
        cos (atan2 d a) * sin (atan2 (- g) s) * sin (atan2 h i) - sin (atan2 d a) * cos (atan2 h i),
        cos (atan2 d a) * sin (atan2 (- g) s) * cos (atan2 h i) + sin (atan2 d a) * sin (atan2 h i),
        0],
       [sin (atan2 d a) * cos (atan2 (- g) s),
        sin (atan2 d a) * sin (atan2 (- g) s) * sin (atan2 h i) + cos (atan2 d a) * cos (atan2 h i),
        sin (atan2 d a) * sin (atan2 (- g) s) * cos (atan2 h i) - cos (atan2 d a) * sin (atan2 h i),
        0],
       [- sin (atan2 (- g) s), cos (atan2 (- g) s) * sin (atan2 h i),
        cos (atan2 (- g) s) * cos (atan2 h i), 0],
       [0, 0, 0, 1]] = [[a, b, c], [d, e, f], [g, h, i]]"
    unfolding cy sy cr sr cp sp e00 e10 e21 e22 e01 e02 e11 e12
    by (simp add: rotation_block_def)
  with euler transform_entries show ?thesis by blast
qed

text \<open>
  Claim C5. For every rotation matrix \<open>R\<close> (3x3, orthonormal, determinant 1) outside the
  singular configuration (\<open>sy \<ge> 1e-6\<close>), \<open>rotation_matrix_to_euler_angles\<close> returns
  angles, \<open>origin_and_rpy_to_transform\<close> of the origin \<open>(0, 0, 0)\<close> and these angles returns
  a transform, and the rotation block of that transform is \<open>R\<close>. In exact arithmetic the two
  are equal, hence within every tolerance.
\<close>

theorem euler_round_trip:
  assumes "is_rotation R"
    and "1 / 10 ^ 6 \<le> sqrt ((R ! 0 ! 0)\<^sup>2 + (R ! 1 ! 0)\<^sup>2)"
  shows "\<exists>roll pitch yaw T.
           rotation_matrix_to_euler_angles R = Inr (roll, pitch, yaw)
           \<and> origin_and_rpy_to_transform [0, 0, 0] [roll, pitch, yaw] = Inr T
           \<and> rotation_block T = R"
proof -
  from assms(1) have "is_matrix 3 3 R" by (simp add: is_rotation_def)
  from matrix_3_3_rows [OF this] obtain a b c d e f g h i where
    R: "R = [[a, b, c], [d, e, f], [g, h, i]]" by blast
  from assms(2) have "1 / 10 ^ 6 \<le> sqrt (a * a + d * d)"
    by (simp add: R power2_eq_square)
  from round_trip_rows [OF assms(1) [unfolded R] this] show ?thesis
    unfolding R .
qed

theorem euler_round_trip_witness:
  "is_rotation [[0, - 1, 0], [1, 0, 0], [0, 0, 1]]
   \<and> 1 / 10 ^ 6 \<le> sqrt (([[0, - 1, 0], [1, 0, 0], [0, 0, 1 :: real]] ! 0 ! 0)\<^sup>2
                        + ([[0, - 1, 0], [1, 0, 0], [0, 0, 1]] ! 1 ! 0)\<^sup>2)
   \<and> rotation_matrix_to_euler_angles [[0, - 1, 0], [1, 0, 0], [0, 0, 1]] = Inr (0, 0, pi / 2)
   \<and> (\<exists>roll pitch yaw T.
         rotation_matrix_to_euler_angles [[0, - 1, 0], [1, 0, 0], [0, 0, 1]] = Inr (roll, pitch, yaw)
         \<and> origin_and_rpy_to_transform [0, 0, 0] [roll, pitch, yaw] = Inr T
         \<and> rotation_block T = [[0, - 1, 0], [1, 0, 0], [0, 0, 1]])"
proof -
  let ?R = "[[0, - 1, 0], [1, 0, 0], [0, 0, 1 :: real]]"
  have r: "is_rotation ?R"
    by (simp add: is_rotation_def is_matrix_def matmul_def mtranspose_def column_def ncols_def
        upt_3 eye_def det_3_3)
  have s: "1 / 10 ^ 6 \<le> sqrt ((?R ! 0 ! 0)\<^sup>2 + (?R ! 1 ! 0)\<^sup>2)"
    by simp
  have e: "rotation_matrix_to_euler_angles ?R = Inr (0, 0, pi / 2)"
    by (simp add: rotation_matrix_to_euler_angles_def at_least_3x3_def Let_def atan2_def)
  from euler_round_trip [OF r s] r s e show ?thesis by blast
qed

subsection \<open>Properties of \<open>inv_tf\<close>\<close>

lemma det_affine:
  "det_m [[a, b, c, x], [d, e, f, y], [g, h, i, z], [0, 0, 0, 1]]
     = a * (e * i - f * h) - b * (d * i - f * g) + c * (d * h - e * g)"
  by (simp add: det_m_def minor_m_def del_at_def upt_4 eval_nat_numeral algebra_simps)

lemma adj_affine:
  "adjugate [[a, b, c, x], [d, e, f, y], [g, h, i, z], [0, 0, 0, 1]] =
    [[e * i - f * h, c * h - b * i, b * f - c * e,
        - ((e * i - f * h) * x + (c * h - b * i) * y + (b * f - c * e) * z)],
     [f * g - d * i, a * i - c * g, c * d - a * f,
        - ((f * g - d * i) * x + (a * i - c * g) * y + (c * d - a * f) * z)],
     [d * h - e * g, b * g - a * h, a * e - b * d,
        - ((d * h - e * g) * x + (b * g - a * h) * y + (a * e - b * d) * z)],
     [0, 0, 0, a * (e * i - f * h) - b * (d * i - f * g) + c * (d * h - e * g)]]"
  by (simp add: adjugate_def minor_m_def del_at_def upt_4 det_3_3 algebra_simps)

lemma inv_affine:
  assumes D: "a * (e * i - f * h) - b * (d * i - f * g) + c * (d * h - e * g) = 1"
  shows "\<exists>Ti. linalg_inv [[a, b, c, x], [d, e, f, y], [g, h, i, z], [0, 0, 0, 1]] = Inr Ti
          \<and> matmul Ti [[a, b, c, x], [d, e, f, y], [g, h, i, z], [0, 0, 0, 1]] = eye 4"
proof -
  let ?M = "[[a, b, c, x], [d, e, f, y], [g, h, i, z], [0, 0, 0, 1]]"
  have det: "det_m ?M = 1" by (simp only: det_affine D)
  have sq: "is_matrix (length ?M) (length ?M) ?M" by (simp add: is_matrix_def)
  have inv: "linalg_inv ?M = Inr (adjugate ?M)"
    unfolding linalg_inv_def det using sq by simp
  have "matmul (adjugate ?M) ?M = eye 4"
    unfolding adj_affine using D
    by (simp add: matmul_def mtranspose_def column_def ncols_def upt_4 eye_def algebra_simps)
  with inv show ?thesis by blast
qed

lemma rotation_det_poly:
  fixes cw sw cp sp cr sr :: real
  shows "cw * cp * ((sw * sp * sr + cw * cr) * (cp * cr) - (sw * sp * cr - cw * sr) * (cp * sr))
   - (cw * sp * sr - sw * cr) * (sw * cp * (cp * cr) - (sw * sp * cr - cw * sr) * (- sp))
   + (cw * sp * cr + sw * sr) * (sw * cp * (cp * sr) - (sw * sp * sr + cw * cr) * (- sp))
   = (cw\<^sup>2 + sw\<^sup>2) * (cp\<^sup>2 + sp\<^sup>2) * (cr\<^sup>2 + sr\<^sup>2)"
  by (simp add: power2_eq_square algebra_simps)

lemma rotation_det_one:
  fixes w p r :: real
  shows "cos w * cos p * ((sin w * sin p * sin r + cos w * cos r) * (cos p * cos r)
        - (sin w * sin p * cos r - cos w * sin r) * (cos p * sin r))
   - (cos w * sin p * sin r - sin w * cos r) * (sin w * cos p * (cos p * cos r)
        - (sin w * sin p * cos r - cos w * sin r) * (- sin p))
   + (cos w * sin p * cos r + sin w * sin r) * (sin w * cos p * (cos p * sin r)
        - (sin w * sin p * sin r + cos w * cos r) * (- sin p)) = 1"
  using rotation_det_poly [where cw = "cos w" and sw = "sin w" and cp = "cos p" and sp = "sin p"
      and cr = "cos r" and sr = "sin r"] by simp

text \<open>
  Claim C6. For every origin of three entries and every rpy of three entries,
  \<open>origin_and_rpy_to_transform\<close> returns a transform \<open>T\<close>, \<open>inv_tf\<close> of it returns a matrix
  (the transform is never singular), and the product of that matrix with \<open>T\<close> is the 4x4
  identity. In exact arithmetic the product is equal to the identity, hence within every
  tolerance.
\<close>

theorem inverse_transform_identity:
  assumes "length origin = 3" and "length rpy = 3"
  shows "\<exists>T Ti. origin_and_rpy_to_transform origin rpy = Inr T
           \<and> inv_tf T = Inr Ti
           \<and> matmul Ti T = eye 4"
proof -
  from assms obtain x y z r p w where o: "origin = [x, y, z]" and a: "rpy = [r, p, w]"
    using length_3_list by metis
  from inv_affine [OF rotation_det_one [of w p r], of x y z] transform_entries [of x y z r p w]
  show ?thesis
    unfolding o a inv_tf_def by blast
qed

theorem inverse_transform_identity_witness:
  "length [1, 2, 3 :: real] = 3 \<and> length [0, 0, 0 :: real] = 3
   \<and> origin_and_rpy_to_transform [1, 2, 3] [0, 0, 0]
       = Inr [[1, 0, 0, 1], [0, 1, 0, 2], [0, 0, 1, 3], [0, 0, 0, 1]]
   \<and> (\<exists>T Ti. origin_and_rpy_to_transform [1, 2, 3] [0, 0, 0] = Inr T
         \<and> inv_tf T = Inr Ti
         \<and> matmul Ti T = eye 4)"
proof -
  have l: "length [1, 2, 3 :: real] = 3" "length [0, 0, 0 :: real] = 3" by simp_all
  have t: "origin_and_rpy_to_transform [1, 2, 3] [0, 0, 0]
       = Inr [[1, 0, 0, 1], [0, 1, 0, 2], [0, 0, 1, 3], [0, 0, 0, 1]]"
    by (simp add: transform_entries)
  from inverse_transform_identity [OF l] l t show ?thesis by blast
qed

end
